theory Spec2Isabelle
  imports Main "HOL-Library.Word"
begin

unbundle bit_operations_syntax

section \<open>GridBanner authorized_keys updater (update-authorized-keys.py)\<close>

text \<open>
  A shallow embedding of \<^verbatim>\<open>server-scripts/update-authorized-keys.py\<close>. The script's
  effects are made explicit: the file system, root's crontab and the log are a state
  record that every function takes and returns; everything the script reads from its
  surroundings (the user database, the effective user, the HTTP server's answer, which
  system calls fail) is a field of an environment record. Python strings are char lists
  (code points below 256), file contents are the text the script reads and writes.
\<close>

subsection \<open>Python string operations\<close>

abbreviation NL :: char where "NL \<equiv> CHR 0x0A"
abbreviation CR :: char where "CR \<equiv> CHR 0x0D"

text \<open>\<^verbatim>\<open>str.isspace\<close> on one character, for code points below 256.\<close>

definition isspace :: "char \<Rightarrow> bool" where
  "isspace c = (c \<in> set [CHR 0x09, CHR 0x0A, CHR 0x0B, CHR 0x0C, CHR 0x0D,
     CHR 0x1C, CHR 0x1D, CHR 0x1E, CHR 0x1F, CHR 0x20, CHR 0x85, CHR 0xA0])"

text \<open>\<^verbatim>\<open>s.strip()\<close>, \<^verbatim>\<open>s.rstrip('/')\<close>.\<close>

definition strip :: "string \<Rightarrow> string" where
  "strip s = rev (dropWhile isspace (rev (dropWhile isspace s)))"

definition rstrip_slash :: "string \<Rightarrow> string" where
  "rstrip_slash s = rev (dropWhile (\<lambda>c. c = CHR ''/'') (rev s))"

text \<open>\<^verbatim>\<open>s.split(c)\<close> for a one-character separator: never the empty list.\<close>

fun str_split :: "char \<Rightarrow> string \<Rightarrow> string list" where
  "str_split c [] = [[]]"
| "str_split c (x # xs) =
     (if x = c then [] # str_split c xs
      else (let rest = str_split c xs in (x # hd rest) # tl rest))"

text \<open>\<^verbatim>\<open>sep.join(xs)\<close>.\<close>

fun str_join :: "string \<Rightarrow> string list \<Rightarrow> string" where
  "str_join sep [] = []"
| "str_join sep [x] = x"
| "str_join sep (x # y # ys) = x @ sep @ str_join sep (y # ys)"

text \<open>\<^verbatim>\<open>sub in s\<close>.\<close>

fun starts_with :: "string \<Rightarrow> string \<Rightarrow> bool" where
  "starts_with [] s = True"
| "starts_with (a # as) [] = False"
| "starts_with (a # as) (c # cs) = (a = c \<and> starts_with as cs)"

fun str_in :: "string \<Rightarrow> string \<Rightarrow> bool" where
  "str_in sub [] = (sub = [])"
| "str_in sub (c # cs) = (starts_with sub (c # cs) \<or> str_in sub cs)"

text \<open>A string between single quotes, as in \<^verbatim>\<open>f"'{user}'"\<close>.\<close>

definition quoted :: "string \<Rightarrow> string" where
  "quoted s = [CHR 0x27] @ s @ [CHR 0x27]"

text \<open>\<^verbatim>\<open>str(n)\<close> for a non-negative integer.\<close>

fun str_nat :: "nat \<Rightarrow> string" where
  "str_nat n =
     (if n < 10 then [''0123456789'' ! n]
      else str_nat (n div 10) @ [''0123456789'' ! (n mod 10)])"

text \<open>
  What a text-mode pipe makes of the bytes it reads (\<^verbatim>\<open>text=True\<close>): every
  \<^verbatim>\<open>\r\n\<close> and every lone \<^verbatim>\<open>\r\<close> becomes \<^verbatim>\<open>\n\<close>.
\<close>

fun universal_newlines :: "string \<Rightarrow> string" where
  "universal_newlines [] = []"
| "universal_newlines [c] = (if c = CR then [NL] else [c])"
| "universal_newlines (c # d # ds) =
     (if c = CR \<and> d = NL then NL # universal_newlines ds
      else if c = CR then NL # universal_newlines (d # ds)
      else c # universal_newlines (d # ds))"

text \<open>\<^verbatim>\<open>os.path.join(a, b)\<close> and \<^verbatim>\<open>os.path.basename(p)\<close> on POSIX.\<close>

definition path_join :: "string \<Rightarrow> string \<Rightarrow> string" where
  "path_join a b =
     (if starts_with ''/'' b then b
      else if a = [] \<or> last a = CHR ''/'' then a @ b
      else a @ ''/'' @ b)"

definition basename :: "string \<Rightarrow> string" where
  "basename p = rev (takeWhile (\<lambda>c. c \<noteq> CHR ''/'') (rev p))"

subsection \<open>The world the script runs in\<close>

type_synonym path = string
type_synonym mode = "16 word"

text \<open>
  The file system is a store from path names to nodes. A regular file has its text, its
  permission bits and its owner; a directory has permission bits and owner. Distinct
  path names are distinct nodes: symbolic and hard links are outside the model.
\<close>

datatype node =
    File (node_content: string) (node_perm: mode) (node_uid: nat) (node_gid: nat)
  | Dir (node_perm: mode) (node_uid: nat) (node_gid: nat)

type_synonym filesystem = "path \<rightharpoonup> node"

text \<open>The \<^verbatim>\<open>OSError\<close>s the script can meet, each with its \<^verbatim>\<open>str(e)\<close>.\<close>

datatype os_kind =
  PermissionError | FileNotFoundError | FileExistsError | IsADirectoryError
  | SameFileError | OtherOSError

datatype os_error = OSError (kind: os_kind) (message: string)

datatype syscall =
  Mkdir path | Copy path path | OpenW path | Write path | Chmod path | Chown path

record passwd =
  pw_dir :: string
  pw_uid :: nat
  pw_gid :: nat

datatype pwd_error = ImportError | KeyError

text \<open>
  What \<^verbatim>\<open>urllib.request.urlopen\<close> does with a request: a response with a status and a
  body (the body's UTF-8 decoding, or the message of the \<^verbatim>\<open>UnicodeDecodeError\<close>), an
  \<^verbatim>\<open>HTTPError\<close> with code and reason, a \<^verbatim>\<open>URLError\<close> with its reason, or any other
  exception (a read timeout, for one) with its message.
\<close>

datatype http_result =
    Response nat "string + string"
  | HTTPError nat string
  | URLError string
  | OtherError string

text \<open>
  The environment. \<open>fault\<close> says which system calls fail for reasons the store does not
  show (permissions, a read-only or full disk): \<open>fault e fs c = Some x\<close> when call \<open>c\<close>,
  made on the store \<open>fs\<close>, raises \<open>x\<close>. \<open>pwd_db\<close> is \<open>None\<close> when the \<^verbatim>\<open>pwd\<close> module
  cannot be imported. \<open>script_path\<close> is \<^verbatim>\<open>os.path.abspath(__file__)\<close>, the path
  the script runs under, \<open>executable\<close> is \<^verbatim>\<open>sys.executable\<close>; \<open>crontab_accepts\<close> says which input
  \<^verbatim>\<open>crontab -\<close> installs.
\<close>

record env =
  euid :: nat
  egid :: nat
  umask :: mode
  pwd_db :: "(string \<rightharpoonup> passwd) option"
  fault :: "filesystem \<Rightarrow> syscall \<Rightarrow> os_error option"
  urlopen :: "string \<Rightarrow> (string \<times> string) list \<Rightarrow> http_result"
  script_path :: string
  executable :: string
  crontab_installed :: bool
  crontab_accepts :: "string \<Rightarrow> bool"

datatype level = INFO | ERROR

text \<open>
  The state: the file system, root's crontab (\<open>None\<close> when there is none) and the lines
  logged so far (the log file and the standard output get the same lines; the log file is
  not one of the store's nodes).
\<close>

record state =
  files :: filesystem
  cron_table :: "string option"
  logged :: "(level \<times> string) list"

definition logger_info :: "string \<Rightarrow> state \<Rightarrow> state" where
  "logger_info msg s = s\<lparr>logged := logged s @ [(INFO, msg)]\<rparr>"

definition logger_error :: "string \<Rightarrow> state \<Rightarrow> state" where
  "logger_error msg s = s\<lparr>logged := logged s @ [(ERROR, msg)]\<rparr>"

subsection \<open>System calls and library calls on the store\<close>

definition exists :: "filesystem \<Rightarrow> path \<Rightarrow> bool" where
  "exists fs p = (fs p \<noteq> None)"

definition isdir :: "filesystem \<Rightarrow> path \<Rightarrow> bool" where
  "isdir fs p = (case fs p of Some (Dir m u g) \<Rightarrow> True | _ \<Rightarrow> False)"

text \<open>
  \<^verbatim>\<open>os.makedirs(p, mode=m, exist_ok=True)\<close>: nothing to do when \<open>p\<close> is a directory, an
  error when it is a file, else a new directory with the mode cut by the umask (the
  parents it creates on the way are not nodes any claim reads).
\<close>

definition makedirs :: "env \<Rightarrow> path \<Rightarrow> mode \<Rightarrow> filesystem \<Rightarrow> os_error + filesystem" where
  "makedirs e p m fs =
     (case fault e fs (Mkdir p) of
        Some x \<Rightarrow> Inl x
      | None \<Rightarrow>
          (case fs p of
             Some (Dir m' u g) \<Rightarrow> Inr fs
           | Some (File c m' u g) \<Rightarrow>
               Inl (OSError FileExistsError (''[Errno 17] File exists: '' @ quoted p))
           | None \<Rightarrow> Inr (fs(p \<mapsto> Dir (m AND NOT (umask e)) (euid e) (egid e)))))"

text \<open>
  \<^verbatim>\<open>shutil.copy2(src, dst)\<close>: when \<open>dst\<close> is a directory the copy goes into it under the
  source's base name; the copy has the source's text and permission bits; an existing
  target keeps its owner, a new one belongs to the caller.
\<close>

definition copy2 :: "env \<Rightarrow> path \<Rightarrow> path \<Rightarrow> filesystem \<Rightarrow> os_error + filesystem" where
  "copy2 e src dst fs =
     (case fault e fs (Copy src dst) of
        Some x \<Rightarrow> Inl x
      | None \<Rightarrow>
          (let target = (if isdir fs dst then path_join dst (basename src) else dst) in
           if target = src then
             Inl (OSError SameFileError (quoted src @ '' and '' @ quoted target @ '' are the same file''))
           else
             (case fs src of
                None \<Rightarrow>
                  Inl (OSError FileNotFoundError
                         (''[Errno 2] No such file or directory: '' @ quoted src))
              | Some (Dir m u g) \<Rightarrow>
                  Inl (OSError IsADirectoryError (''[Errno 21] Is a directory: '' @ quoted src))
              | Some (File c m u g) \<Rightarrow>
                  (case fs target of
                     Some (Dir m' u' g') \<Rightarrow>
                       Inl (OSError IsADirectoryError
                              (''[Errno 21] Is a directory: '' @ quoted target))
                   | Some (File c' m' u' g') \<Rightarrow> Inr (fs(target \<mapsto> File c m u' g'))
                   | None \<Rightarrow> Inr (fs(target \<mapsto> File c m (euid e) (egid e)))))))"

text \<open>
  \<^verbatim>\<open>open(p, 'w')\<close> truncates an existing file and creates a missing one (mode 0666 cut
  by the umask); \<^verbatim>\<open>f.write(data)\<close> then adds the text.
\<close>

definition open_w :: "env \<Rightarrow> path \<Rightarrow> filesystem \<Rightarrow> os_error + filesystem" where
  "open_w e p fs =
     (case fault e fs (OpenW p) of
        Some x \<Rightarrow> Inl x
      | None \<Rightarrow>
          (case fs p of
             Some (Dir m u g) \<Rightarrow>
               Inl (OSError IsADirectoryError (''[Errno 21] Is a directory: '' @ quoted p))
           | Some (File c m u g) \<Rightarrow> Inr (fs(p \<mapsto> File [] m u g))
           | None \<Rightarrow> Inr (fs(p \<mapsto> File [] (438 AND NOT (umask e)) (euid e) (egid e)))))"

definition write_text :: "env \<Rightarrow> path \<Rightarrow> string \<Rightarrow> filesystem \<Rightarrow> os_error + filesystem" where
  "write_text e p data fs =
     (case fault e fs (Write p) of
        Some x \<Rightarrow> Inl x
      | None \<Rightarrow>
          (case fs p of
             Some (File c m u g) \<Rightarrow> Inr (fs(p \<mapsto> File (c @ data) m u g))
           | _ \<Rightarrow> Inl (OSError OtherOSError ''[Errno 9] Bad file descriptor'')))"

definition chmod :: "env \<Rightarrow> path \<Rightarrow> mode \<Rightarrow> filesystem \<Rightarrow> os_error + filesystem" where
  "chmod e p m fs =
     (case fault e fs (Chmod p) of
        Some x \<Rightarrow> Inl x
      | None \<Rightarrow>
          (case fs p of
             None \<Rightarrow>
               Inl (OSError FileNotFoundError
                      (''[Errno 2] No such file or directory: '' @ quoted p))
           | Some (File c m' u g) \<Rightarrow> Inr (fs(p \<mapsto> File c m u g))
           | Some (Dir m' u g) \<Rightarrow> Inr (fs(p \<mapsto> Dir m u g))))"

definition chown :: "env \<Rightarrow> path \<Rightarrow> nat \<Rightarrow> nat \<Rightarrow> filesystem \<Rightarrow> os_error + filesystem" where
  "chown e p u g fs =
     (case fault e fs (Chown p) of
        Some x \<Rightarrow> Inl x
      | None \<Rightarrow>
          (case fs p of
             None \<Rightarrow>
               Inl (OSError FileNotFoundError
                      (''[Errno 2] No such file or directory: '' @ quoted p))
           | Some (File c m u' g') \<Rightarrow> Inr (fs(p \<mapsto> File c m u g))
           | Some (Dir m u' g') \<Rightarrow> Inr (fs(p \<mapsto> Dir m u g))))"

text \<open>\<^verbatim>\<open>pwd.getpwnam(user)\<close>, with the import before it.\<close>

definition getpwnam :: "env \<Rightarrow> string \<Rightarrow> pwd_error + passwd" where
  "getpwnam e user =
     (case pwd_db e of
        None \<Rightarrow> Inl ImportError
      | Some db \<Rightarrow> (case db user of None \<Rightarrow> Inl KeyError | Some pw \<Rightarrow> Inr pw))"

text \<open>
  Statements that may raise: the exception raised (if any) and the state reached.
  \<open>then_do\<close> runs the second statement only when the first did not raise.
\<close>

type_synonym stmt = "state \<Rightarrow> os_error option \<times> state"

definition on_files :: "(filesystem \<Rightarrow> os_error + filesystem) \<Rightarrow> stmt" where
  "on_files f s = (case f (files s) of Inl x \<Rightarrow> (Some x, s) | Inr fs \<Rightarrow> (None, s\<lparr>files := fs\<rparr>))"

definition then_do :: "stmt \<Rightarrow> stmt \<Rightarrow> stmt" where
  "then_do f g s = (case f s of (Some x, s') \<Rightarrow> (Some x, s') | (None, s') \<Rightarrow> g s')"

definition log_info :: "string \<Rightarrow> stmt" where
  "log_info msg s = (None, logger_info msg s)"

subsection \<open>The script\<close>

definition CRON_COMMENT :: string where
  "CRON_COMMENT = ''# GridBanner authorized_keys updater''"

text \<open>\<^verbatim>\<open>os.path.abspath(__file__)\<close>: whatever path the script runs under.\<close>

definition get_script_path :: "env \<Rightarrow> string" where
  "get_script_path e = script_path e"

text \<open>
  \<^verbatim>\<open>fetch_authorized_keys\<close>: the text of the answer, or \<open>None\<close> on error, and the state
  with the lines it logged.
\<close>

definition request_url :: "string \<Rightarrow> string \<Rightarrow> string \<Rightarrow> string" where
  "request_url server_url admin_key group_name =
     rstrip_slash server_url @ ''/api/authorized-keys/group/'' @ group_name
       @ ''?key='' @ admin_key"

definition fetch_authorized_keys ::
  "env \<Rightarrow> string \<Rightarrow> string \<Rightarrow> string \<Rightarrow> state \<Rightarrow> string option \<times> state" where
  "fetch_authorized_keys e server_url admin_key group_name s =
     (let url = request_url server_url admin_key group_name;
          s1 = logger_info (''Fetching authorized_keys from '' @ url) s
      in case urlopen e url [(''X-API-Key'', admin_key)] of
           Response status body \<Rightarrow>
             (if status = 200 then
                (case body of
                   Inr content \<Rightarrow>
                     (Some content,
                      logger_info (''Successfully fetched '' @ str_nat (length content) @ '' bytes'') s1)
                 | Inl msg \<Rightarrow> (None, logger_error (''Unexpected error: '' @ msg) s1))
              else (None, logger_error (''Server returned status '' @ str_nat status) s1))
         | HTTPError code reason \<Rightarrow>
             (None,
              (if code = 404 then
                 logger_error (''Group '' @ quoted group_name @ '' not found on server'') s1
               else if code = 401 then
                 logger_error ''Authentication failed - check admin key'' s1
               else logger_error (''HTTP error '' @ str_nat code @ '': '' @ reason) s1))
         | URLError reason \<Rightarrow> (None, logger_error (''Network error: '' @ reason) s1)
         | OtherError msg \<Rightarrow> (None, logger_error (''Unexpected error: '' @ msg) s1))"

text \<open>
  \<^verbatim>\<open>update_authorized_keys\<close>, first part: the home directory, or the error that is logged
  before \<^verbatim>\<open>return False\<close>.
\<close>

definition home_dir :: "env \<Rightarrow> string \<Rightarrow> filesystem \<Rightarrow> string + string" where
  "home_dir e user fs =
     (if user = ''root'' then Inr ''/root''
      else
        (case getpwnam e user of
           Inr pw \<Rightarrow> Inr (pw_dir pw)
         | Inl KeyError \<Rightarrow> Inl (''User '' @ quoted user @ '' not found'')
         | Inl ImportError \<Rightarrow>
             (let home = ''/home/'' @ user in
              if \<not> exists fs home then
                Inl (''Home directory for user '' @ quoted user @ '' not found'')
              else Inr home)))"

definition ssh_dir :: "string \<Rightarrow> path" where
  "ssh_dir home = path_join home ''.ssh''"

definition keys_file :: "string \<Rightarrow> path" where
  "keys_file home = path_join (ssh_dir home) ''authorized_keys''"

definition backup_file :: "string \<Rightarrow> path" where
  "backup_file home = keys_file home @ ''.backup''"

text \<open>Second part: the statements from \<^verbatim>\<open>os.makedirs\<close> to the last log line.\<close>

definition backup_keys :: "env \<Rightarrow> string \<Rightarrow> stmt" where
  "backup_keys e home s =
     (if exists (files s) (keys_file home) then
        then_do (on_files (copy2 e (keys_file home) (backup_file home)))
          (log_info (''Created backup: '' @ backup_file home)) s
      else (None, s))"

definition set_ownership :: "env \<Rightarrow> string \<Rightarrow> string \<Rightarrow> stmt" where
  "set_ownership e user home s =
     (if euid e = 0 then
        (case getpwnam e user of
           Inl err \<Rightarrow> (None, s)
         | Inr pw \<Rightarrow>
             then_do (on_files (chown e (keys_file home) (pw_uid pw) (pw_gid pw)))
               (on_files (chown e (ssh_dir home) (pw_uid pw) (pw_gid pw))) s)
      else (None, s))"

definition write_keys :: "env \<Rightarrow> string \<Rightarrow> string \<Rightarrow> string \<Rightarrow> stmt" where
  "write_keys e user home keys_content =
     then_do (on_files (makedirs e (ssh_dir home) 448))
    (then_do (backup_keys e home)
    (then_do (on_files (open_w e (keys_file home)))
    (then_do (on_files (write_text e (keys_file home) keys_content))
    (then_do (on_files (chmod e (keys_file home) 384))
    (then_do (on_files (chmod e (ssh_dir home) 448))
    (then_do (set_ownership e user home)
             (log_info (''Updated authorized_keys for user '' @ quoted user
                          @ '' ('' @ keys_file home @ '')''))))))))"

definition update_authorized_keys :: "env \<Rightarrow> string \<Rightarrow> string \<Rightarrow> state \<Rightarrow> bool \<times> state" where
  "update_authorized_keys e user keys_content s =
     (case home_dir e user (files s) of
        Inl msg \<Rightarrow> (False, logger_error msg s)
      | Inr home \<Rightarrow>
          (case write_keys e user home keys_content s of
             (None, s') \<Rightarrow> (True, s')
           | (Some x, s') \<Rightarrow>
               (if kind x = PermissionError then
                  (False,
                   logger_error (''Permission denied updating keys for user '' @ quoted user
                                   @ '' (run as root)'') s')
                else
                  (False,
                   logger_error (''Error updating keys for user '' @ quoted user @ '': ''
                                   @ message x) s'))))"

text \<open>
  The \<^verbatim>\<open>crontab\<close> command: \<^verbatim>\<open>crontab -l\<close> (return code and standard output, read in
  text mode), \<^verbatim>\<open>crontab -\<close> (return code) and \<^verbatim>\<open>crontab -r\<close>. Starting it raises
  \<^verbatim>\<open>FileNotFoundError\<close> when the command is not installed.
\<close>

definition crontab_missing :: os_error where
  "crontab_missing =
     OSError FileNotFoundError (''[Errno 2] No such file or directory: '' @ quoted ''crontab'')"

definition crontab_l :: "env \<Rightarrow> state \<Rightarrow> os_error + nat \<times> string" where
  "crontab_l e s =
     (if \<not> crontab_installed e then Inl crontab_missing
      else (case cron_table s of
              None \<Rightarrow> Inr (1, [])
            | Some t \<Rightarrow> Inr (0, universal_newlines t)))"

definition crontab_stdin :: "env \<Rightarrow> string \<Rightarrow> state \<Rightarrow> os_error + nat \<times> state" where
  "crontab_stdin e inp s =
     (if \<not> crontab_installed e then Inl crontab_missing
      else if crontab_accepts e inp then Inr (0, s\<lparr>cron_table := Some inp\<rparr>)
      else Inr (1, s))"

definition crontab_r :: "env \<Rightarrow> state \<Rightarrow> os_error + nat \<times> state" where
  "crontab_r e s =
     (if \<not> crontab_installed e then Inl crontab_missing
      else (case cron_table s of
              None \<Rightarrow> Inr (1, s)
            | Some t \<Rightarrow> Inr (0, s\<lparr>cron_table := None\<rparr>)))"

datatype outcome = Returned | SystemExit nat

text \<open>The lines of the current crontab that are not GridBanner's.\<close>

definition filtered_lines :: "string \<Rightarrow> string list" where
  "filtered_lines current_crontab =
     filter (\<lambda>line. \<not> str_in CRON_COMMENT line \<and> \<not> str_in ''update-authorized-keys.py'' line)
       (str_split NL current_crontab)"

definition cron_entry :: "env \<Rightarrow> string \<Rightarrow> string \<Rightarrow> string \<Rightarrow> string list \<Rightarrow> string" where
  "cron_entry e server_url admin_key group_name users =
     (let users_arg = (if users \<noteq> [] then '' --users '' @ str_join '','' users else []);
          cmd = executable e @ '' '' @ get_script_path e @ '' --server '' @ server_url
                  @ '' --key '' @ admin_key @ '' --group '' @ group_name @ users_arg
      in ''*/1 * * * * '' @ cmd @ '' >> /var/log/gridbanner-keys-update.log 2>&1'')"

text \<open>\<^verbatim>\<open>'\n'.join(filtered_lines).strip()\<close>, the start of both new tables.\<close>

definition stripped_table :: "string \<Rightarrow> string" where
  "stripped_table current_crontab = strip (str_join [NL] (filtered_lines current_crontab))"

definition new_crontab :: "string \<Rightarrow> string \<Rightarrow> string" where
  "new_crontab current_crontab entry =
     (let t = stripped_table current_crontab
      in (if t \<noteq> [] then t @ [NL] else []) @ CRON_COMMENT @ [NL] @ entry @ [NL])"

definition install_failed :: "os_error \<Rightarrow> state \<Rightarrow> outcome \<times> state" where
  "install_failed x s =
     (if kind x = FileNotFoundError then
        (SystemExit 1, logger_error ''crontab command not found. Is cron installed?'' s)
      else (SystemExit 1, logger_error (''Error installing cron job: '' @ message x) s))"

definition install_cron ::
  "env \<Rightarrow> string \<Rightarrow> string \<Rightarrow> string \<Rightarrow> string list \<Rightarrow> state \<Rightarrow> outcome \<times> state" where
  "install_cron e server_url admin_key group_name users s =
     (if euid e \<noteq> 0 then
        (SystemExit 1, logger_error ''Must run as root to install cron job'' s)
      else
        (let entry = cron_entry e server_url admin_key group_name users in
         case crontab_l e s of
           Inl x \<Rightarrow> install_failed x s
         | Inr (returncode, stdout) \<Rightarrow>
             (let current_crontab = (if returncode = 0 then stdout else [])
              in case crontab_stdin e (new_crontab current_crontab entry) s of
                   Inl x \<Rightarrow> install_failed x s
                 | Inr (returncode', s') \<Rightarrow>
                     (if returncode' = 0 then
                        (Returned,
                         logger_info (''Cron entry: '' @ entry)
                           (logger_info ''Cron job installed successfully'' s'))
                      else (SystemExit 1, logger_error ''Failed to install cron job'' s')))))"

definition uninstall_failed :: "os_error \<Rightarrow> state \<Rightarrow> outcome \<times> state" where
  "uninstall_failed x s =
     (SystemExit 1, logger_error (''Error uninstalling cron job: '' @ message x) s)"

definition uninstall_cron :: "env \<Rightarrow> state \<Rightarrow> outcome \<times> state" where
  "uninstall_cron e s =
     (if euid e \<noteq> 0 then
        (SystemExit 1, logger_error ''Must run as root to uninstall cron job'' s)
      else
        (case crontab_l e s of
           Inl x \<Rightarrow> uninstall_failed x s
         | Inr (returncode, stdout) \<Rightarrow>
             (if returncode \<noteq> 0 then (Returned, logger_info ''No crontab found'' s)
              else
                (let t = stripped_table stdout in
                 if t \<noteq> [] then
                   (case crontab_stdin e (t @ [NL]) s of
                      Inl x \<Rightarrow> uninstall_failed x s
                    | Inr (returncode', s') \<Rightarrow>
                        (Returned, logger_info ''Cron job uninstalled successfully'' s'))
                 else
                   (case crontab_r e s of
                      Inl x \<Rightarrow> uninstall_failed x s
                    | Inr (returncode', s') \<Rightarrow>
                        (Returned,
                         logger_info ''Cron job uninstalled (crontab is now empty)'' s'))))))"

text \<open>The command line after \<^verbatim>\<open>argparse\<close>.\<close>

record args =
  arg_server :: string
  arg_key :: string
  arg_group :: string
  arg_users :: "string option"
  arg_install :: bool
  arg_uninstall :: bool

text \<open>The loop of \<^verbatim>\<open>main\<close> over the users, from a given \<^verbatim>\<open>success_count\<close>.\<close>

fun update_users :: "env \<Rightarrow> string list \<Rightarrow> string \<Rightarrow> nat \<Rightarrow> state \<Rightarrow> nat \<times> state" where
  "update_users e [] keys_content success_count s = (success_count, s)"
| "update_users e (user # rest) keys_content success_count s =
     (case update_authorized_keys e user keys_content s of
        (ok, s') \<Rightarrow>
          update_users e rest keys_content (if ok then success_count + 1 else success_count) s')"

definition users_of :: "args \<Rightarrow> string list" where
  "users_of a =
     (case arg_users a of
        None \<Rightarrow> [''root'']
      | Some us \<Rightarrow>
          (if us \<noteq> [] then filter (\<lambda>u. u \<noteq> []) (map strip (str_split CHR '','' us))
           else [''root'']))"

definition main :: "env \<Rightarrow> args \<Rightarrow> state \<Rightarrow> outcome \<times> state" where
  "main e a s =
     (if arg_uninstall a then uninstall_cron e s
      else
        (let users = users_of a in
         case fetch_authorized_keys e (arg_server a) (arg_key a) (arg_group a) s of
           (None, s1) \<Rightarrow>
             (SystemExit 1, logger_error ''Failed to fetch authorized_keys from server'' s1)
         | (Some keys_content, s1) \<Rightarrow>
             (case update_users e users keys_content 0 s1 of
                (success_count, s2) \<Rightarrow>
                  (if success_count = 0 then
                     (SystemExit 1, logger_error ''Failed to update keys for any user'' s2)
                   else
                     (let s3 = logger_info (''Successfully updated keys for ''
                                  @ str_nat success_count @ ''/'' @ str_nat (length users)
                                  @ '' user(s)'') s2
                      in if arg_install a then
                           install_cron e (arg_server a) (arg_key a) (arg_group a) users s3
                         else (Returned, s3))))))"

text \<open>Reading a file back, and the permission bits of a node.\<close>

definition read_file :: "filesystem \<Rightarrow> path \<Rightarrow> string option" where
  "read_file fs p = (case fs p of Some (File c m u g) \<Rightarrow> Some c | _ \<Rightarrow> None)"

definition mode_of :: "filesystem \<Rightarrow> path \<Rightarrow> mode option" where
  "mode_of fs p = map_option node_perm (fs p)"



subsection \<open>Example surroundings\<close>

text \<open>
  A host where the script runs as root with umask 022, the user database knows
  \<^verbatim>\<open>deploy\<close>, no system call fails, the server answers with one key,
  \<^verbatim>\<open>crontab\<close> is installed, and the script runs under its own file name.
\<close>

definition example_env :: env where
  "example_env =
     \<lparr>euid = 0, egid = 0, umask = 18,
      pwd_db = Some [''deploy'' \<mapsto> \<lparr>pw_dir = ''/home/deploy'', pw_uid = 1000, pw_gid = 1000\<rparr>],
      fault = (\<lambda>fs c. None),
      urlopen = (\<lambda>url headers. Response 200 (Inr (''ssh-ed25519 AAAA user@host'' @ [NL]))),
      script_path = ''/opt/gridbanner/update-authorized-keys.py'',
      executable = ''/usr/bin/python3'',
      crontab_installed = True,
      crontab_accepts = (\<lambda>t. True)\<rparr>"

definition empty_state :: state where
  "empty_state = \<lparr>files = Map.empty, cron_table = None, logged = []\<rparr>"

text \<open>The same host, with a server that answers every request with \<open>r\<close>.\<close>

definition answering :: "http_result \<Rightarrow> env" where
  "answering r = example_env\<lparr>urlopen := (\<lambda>url headers. r)\<rparr>"


text \<open>The same host without the \<^verbatim>\<open>pwd\<close> module.\<close>

definition no_pwd_env :: env where
  "no_pwd_env = example_env\<lparr>pwd_db := None\<rparr>"

text \<open>
  Root's \<^verbatim>\<open>.ssh\<close> with loose permissions (0755, 0644), an old key and an older backup;
  the home of \<^verbatim>\<open>deploy\<close>, whose \<^verbatim>\<open>.ssh\<close> holds only a stale backup.
\<close>

definition root_state :: state where
  "root_state =
     \<lparr>files = [''/root/.ssh'' \<mapsto> Dir 493 0 0,
               ''/root/.ssh/authorized_keys'' \<mapsto> File ''ssh-rsa OLD old@host'' 420 0 0,
               ''/root/.ssh/authorized_keys.backup'' \<mapsto> File ''ssh-rsa OLDER older@host'' 420 0 0],
      cron_table = None, logged = []\<rparr>"

definition stale_state :: state where
  "stale_state =
     \<lparr>files = [''/home/deploy'' \<mapsto> Dir 493 1000 1000,
               ''/home/deploy/.ssh'' \<mapsto> Dir 493 1000 1000,
               ''/home/deploy/.ssh/authorized_keys.backup'' \<mapsto> File ''ssh-rsa STALE s@host'' 384 1000 1000],
      cron_table = None, logged = []\<rparr>"

definition key_payload :: string where
  "key_payload = ''ssh-ed25519 AAAA user@host'' @ [NL]"

text \<open>
  Command lines: one for a known and an unknown user, one for the group \<^verbatim>\<open>Ghosts\<close>.
\<close>

definition two_users_args :: args where
  "two_users_args =
     \<lparr>arg_server = ''http://server:3000'', arg_key = ''adminkey'', arg_group = ''Developers'',
      arg_users = Some ''deploy,ghost'', arg_install = False, arg_uninstall = False\<rparr>"

definition ghosts_args :: args where
  "ghosts_args =
     \<lparr>arg_server = ''http://server:3000'', arg_key = ''adminkey'', arg_group = ''Ghosts'',
      arg_users = Some ''root,deploy'', arg_install = True, arg_uninstall = False\<rparr>"







section \<open>Properties\<close>

subsection \<open>Logging\<close>

lemma files_logger [simp]:
  "files (logger_info msg s) = files s" "files (logger_error msg s) = files s"
  by (simp_all add: logger_info_def logger_error_def)

lemma cron_table_logger [simp]:
  "cron_table (logger_info msg s) = cron_table s" "cron_table (logger_error msg s) = cron_table s"
  by (simp_all add: logger_info_def logger_error_def)

lemma logged_logger [simp]:
  "logged (logger_info msg s) = logged s @ [(INFO, msg)]"
  "logged (logger_error msg s) = logged s @ [(ERROR, msg)]"
  by (simp_all add: logger_info_def logger_error_def)

subsection \<open>The key source client\<close>

lemma fetch_keeps_files [simp]:
  "files (snd (fetch_authorized_keys e server_url admin_key group_name s)) = files s"
  by (simp add: fetch_authorized_keys_def Let_def split: http_result.splits sum.splits)

lemma fetch_keeps_cron_table [simp]:
  "cron_table (snd (fetch_authorized_keys e server_url admin_key group_name s)) = cron_table s"
  by (simp add: fetch_authorized_keys_def Let_def split: http_result.splits sum.splits)




subsection \<open>The orchestrator: a failed fetch\<close>

text \<open>
  C5: a run that is not an uninstall and whose fetch fails exits with status 1 before
  any account is processed; it leaves the file system (every \<^verbatim>\<open>authorized_keys\<close> and
  backup file) and the job table as they were.
\<close>

theorem fetch_failure_aborts_run:
  assumes "\<not> arg_uninstall a"
    and "fst (fetch_authorized_keys e (arg_server a) (arg_key a) (arg_group a) s) = None"
  shows "fst (main e a s) = SystemExit 1
       \<and> files (snd (main e a s)) = files s
       \<and> cron_table (snd (main e a s)) = cron_table s"
proof -
  obtain s1 where f: "fetch_authorized_keys e (arg_server a) (arg_key a) (arg_group a) s = (None, s1)"
    using assms(2) by (cases "fetch_authorized_keys e (arg_server a) (arg_key a) (arg_group a) s") auto
  have "files s1 = files s" "cron_table s1 = cron_table s"
    using fetch_keeps_files [of e "arg_server a" "arg_key a" "arg_group a" s]
      fetch_keeps_cron_table [of e "arg_server a" "arg_key a" "arg_group a" s] f by simp_all
  then show ?thesis
    using assms(1) f by (simp add: main_def Let_def)
qed

theorem fetch_failure_aborts_run_witness:
  "\<not> arg_uninstall ghosts_args
   \<and> fst (fetch_authorized_keys (answering (HTTPError 404 ''Not Found'')) ''http://server:3000''
            ''adminkey'' ''Ghosts'' empty_state) = None
   \<and> fst (main (answering (HTTPError 404 ''Not Found'')) ghosts_args empty_state) = SystemExit 1
   \<and> files (snd (main (answering (HTTPError 404 ''Not Found'')) ghosts_args empty_state)) = Map.empty
   \<and> cron_table (snd (main (answering (HTTPError 404 ''Not Found'')) ghosts_args empty_state)) = None"
proof -
  have u: "\<not> arg_uninstall ghosts_args" by (simp add: ghosts_args_def)
  have f: "fst (fetch_authorized_keys (answering (HTTPError 404 ''Not Found''))
             (arg_server ghosts_args) (arg_key ghosts_args) (arg_group ghosts_args) empty_state) = None"
    by (simp add: fetch_authorized_keys_def answering_def Let_def)
  show ?thesis
    using u f fetch_failure_aborts_run [OF u f]
    by (simp add: ghosts_args_def empty_state_def)
qed

subsection \<open>The account key reconciler\<close>

lemma then_do_None:
  "then_do f g s = (None, s') \<longleftrightarrow> (\<exists>s1. f s = (None, s1) \<and> g s1 = (None, s'))"
  by (auto simp: then_do_def split: prod.splits option.splits)

lemma on_files_None:
  "on_files f s = (None, s') \<longleftrightarrow> (\<exists>fs. f (files s) = Inr fs \<and> s' = s\<lparr>files := fs\<rparr>)"
  by (auto simp: on_files_def split: sum.splits)

lemma log_info_None: "log_info msg s = (None, s') \<longleftrightarrow> s' = logger_info msg s"
  by (auto simp: log_info_def)

lemma length_path_join:
  "\<not> starts_with ''/'' b \<Longrightarrow> length a + length b \<le> length (path_join a b)"
  by (simp add: path_join_def)

lemma ssh_dir_neq_keys_file: "ssh_dir home \<noteq> keys_file home"
proof
  assume "ssh_dir home = keys_file home"
  then have "length (ssh_dir home) = length (keys_file home)" by simp
  moreover have "length (ssh_dir home) + length ''authorized_keys'' \<le> length (keys_file home)"
    unfolding keys_file_def by (rule length_path_join) simp
  ultimately show False by simp
qed

lemma keys_file_neq_backup_file: "keys_file home \<noteq> backup_file home"
  by (simp add: backup_file_def)

lemma ssh_dir_neq_backup_file: "ssh_dir home \<noteq> backup_file home"
proof
  assume "ssh_dir home = backup_file home"
  then have "length (ssh_dir home) = length (backup_file home)" by simp
  moreover have "length (ssh_dir home) + length ''authorized_keys'' \<le> length (keys_file home)"
    unfolding keys_file_def by (rule length_path_join) simp
  ultimately show False by (simp add: backup_file_def)
qed

lemmas paths_distinct =
  ssh_dir_neq_keys_file ssh_dir_neq_keys_file [symmetric]
  keys_file_neq_backup_file keys_file_neq_backup_file [symmetric]
  ssh_dir_neq_backup_file ssh_dir_neq_backup_file [symmetric]

text \<open>What each call does to the store when it succeeds.\<close>

lemma makedirs_Inr:
  "makedirs e p m fs = Inr fs' \<Longrightarrow>
     (\<exists>m' u g. fs' p = Some (Dir m' u g)) \<and> (\<forall>q. q \<noteq> p \<longrightarrow> fs' q = fs q)"
  by (auto simp: makedirs_def split: option.splits node.splits)

lemma open_w_Inr:
  "open_w e p fs = Inr fs' \<Longrightarrow>
     (\<exists>m u g. fs' p = Some (File [] m u g)) \<and> (\<forall>q. q \<noteq> p \<longrightarrow> fs' q = fs q)"
  by (auto simp: open_w_def split: option.splits node.splits)

lemma write_text_Inr:
  "write_text e p d fs = Inr fs' \<Longrightarrow>
     (\<exists>c m u g. fs p = Some (File c m u g) \<and> fs' p = Some (File (c @ d) m u g))
     \<and> (\<forall>q. q \<noteq> p \<longrightarrow> fs' q = fs q)"
  by (auto simp: write_text_def split: option.splits node.splits)

lemma chmod_Inr:
  "chmod e p m fs = Inr fs' \<Longrightarrow>
     ((\<exists>c m' u g. fs p = Some (File c m' u g) \<and> fs' p = Some (File c m u g))
      \<or> (\<exists>m' u g. fs p = Some (Dir m' u g) \<and> fs' p = Some (Dir m u g)))
     \<and> (\<forall>q. q \<noteq> p \<longrightarrow> fs' q = fs q)"
  by (auto simp: chmod_def split: option.splits node.splits)

lemma chown_Inr:
  "chown e p u g fs = Inr fs' \<Longrightarrow>
     ((\<exists>c m u' g'. fs p = Some (File c m u' g') \<and> fs' p = Some (File c m u g))
      \<or> (\<exists>m u' g'. fs p = Some (Dir m u' g') \<and> fs' p = Some (Dir m u g)))
     \<and> (\<forall>q. q \<noteq> p \<longrightarrow> fs' q = fs q)"
  by (auto simp: chown_def split: option.splits node.splits)

lemma copy2_Inr:
  "copy2 e src dst fs = Inr fs' \<Longrightarrow> \<not> isdir fs dst \<Longrightarrow>
     (\<exists>c m u g u' g'. fs src = Some (File c m u g) \<and> fs' dst = Some (File c m u' g'))
     \<and> (\<forall>q. q \<noteq> dst \<longrightarrow> fs' q = fs q)"
  by (auto simp: copy2_def Let_def split: option.splits node.splits if_splits)

lemma copy2_frame:
  "copy2 e src dst fs = Inr fs' \<Longrightarrow>
     \<forall>q. q \<noteq> dst \<and> q \<noteq> path_join dst (basename src) \<longrightarrow> fs' q = fs q"
  by (auto simp: copy2_def Let_def split: option.splits node.splits if_splits)

lemma basename_no_slash: "\<not> starts_with ''/'' (basename p)"
proof
  assume "starts_with ''/'' (basename p)"
  then have "CHR ''/'' \<in> set (basename p)" by (cases "basename p") auto
  then have "CHR ''/'' \<in> set (takeWhile (\<lambda>c. c \<noteq> CHR ''/'') (rev p))"
    by (simp add: basename_def)
  then show False by (auto dest: set_takeWhileD)
qed

lemma length_keys_file: "length (ssh_dir home) < length (keys_file home)"
proof -
  have "length (ssh_dir home) + length ''authorized_keys'' \<le> length (keys_file home)"
    unfolding keys_file_def by (rule length_path_join) simp
  then show ?thesis by simp
qed

lemma inside_backup_neq:
  "path_join (backup_file home) (basename p) \<noteq> keys_file home"
  "path_join (backup_file home) (basename p) \<noteq> ssh_dir home"
proof -
  have "length (backup_file home) \<le> length (path_join (backup_file home) (basename p))"
    using length_path_join [OF basename_no_slash, of "backup_file home" p] by simp
  moreover have "length (keys_file home) < length (backup_file home)"
    by (simp add: backup_file_def)
  ultimately have "length (keys_file home) < length (path_join (backup_file home) (basename p))"
    by simp
  then show "path_join (backup_file home) (basename p) \<noteq> keys_file home"
    and "path_join (backup_file home) (basename p) \<noteq> ssh_dir home"
    using length_keys_file [of home] by auto
qed

lemma backup_keys_frame:
  assumes "backup_keys e home s = (None, s')"
  shows "files s' (keys_file home) = files s (keys_file home)"
    and "files s' (ssh_dir home) = files s (ssh_dir home)"
proof -
  have "files s' (keys_file home) = files s (keys_file home)
      \<and> files s' (ssh_dir home) = files s (ssh_dir home)"
  proof (cases "exists (files s) (keys_file home)")
    case False
    with assms show ?thesis by (simp add: backup_keys_def)
  next
    case True
    with assms obtain fs where c: "copy2 e (keys_file home) (backup_file home) (files s) = Inr fs"
      and s': "s' = logger_info (''Created backup: '' @ backup_file home) (s\<lparr>files := fs\<rparr>)"
      by (auto simp: backup_keys_def then_do_None on_files_None log_info_None)
    from copy2_frame [OF c] show ?thesis
      using s' paths_distinct [of home] inside_backup_neq [of home "keys_file home"] by simp
  qed
  then show "files s' (keys_file home) = files s (keys_file home)"
    and "files s' (ssh_dir home) = files s (ssh_dir home)" by simp_all
qed

lemma backup_keys_absent:
  "files s (keys_file home) = None \<Longrightarrow> backup_keys e home s = (None, s)"
  by (simp add: backup_keys_def exists_def)

lemma backup_keys_copies:
  assumes "backup_keys e home s = (None, s')"
    and "files s (keys_file home) = Some (File x m u g)"
    and "\<not> isdir (files s) (backup_file home)"
  shows "\<exists>u' g'. files s' (backup_file home) = Some (File x m u' g')"
proof -
  from assms(1,2) obtain fs where
    c: "copy2 e (keys_file home) (backup_file home) (files s) = Inr fs"
    and s': "s' = logger_info (''Created backup: '' @ backup_file home) (s\<lparr>files := fs\<rparr>)"
    by (auto simp: backup_keys_def exists_def then_do_None on_files_None log_info_None)
  from copy2_Inr [OF c assms(3)] assms(2) s' show ?thesis by auto
qed

lemma set_ownership_cases:
  assumes "set_ownership e user home s = (None, s')"
  shows "s' = s \<or> (\<exists>a b f1 f2.
           chown e (keys_file home) a b (files s) = Inr f1
           \<and> chown e (ssh_dir home) a b f1 = Inr f2 \<and> s' = s\<lparr>files := f2\<rparr>)"
proof (cases "euid e = 0")
  case False
  with assms show ?thesis by (simp add: set_ownership_def)
next
  case True
  show ?thesis
  proof (cases "getpwnam e user")
    case (Inl err)
    with True assms show ?thesis by (simp add: set_ownership_def)
  next
    case (Inr pw)
    with True assms have
      "then_do (on_files (chown e (keys_file home) (pw_uid pw) (pw_gid pw)))
         (on_files (chown e (ssh_dir home) (pw_uid pw) (pw_gid pw))) s = (None, s')"
      by (simp add: set_ownership_def)
    then obtain s1 where
      1: "on_files (chown e (keys_file home) (pw_uid pw) (pw_gid pw)) s = (None, s1)"
      and 2: "on_files (chown e (ssh_dir home) (pw_uid pw) (pw_gid pw)) s1 = (None, s')"
      unfolding then_do_None by blast
    from 1 obtain f1 where
      f1: "chown e (keys_file home) (pw_uid pw) (pw_gid pw) (files s) = Inr f1"
      and s1: "s1 = s\<lparr>files := f1\<rparr>"
      unfolding on_files_None by blast
    from 2 s1 obtain f2 where
      f2: "chown e (ssh_dir home) (pw_uid pw) (pw_gid pw) f1 = Inr f2"
      and s': "s' = s\<lparr>files := f2\<rparr>"
      unfolding on_files_None by auto
    from f1 f2 s' show ?thesis by blast
  qed
qed

lemma set_ownership_None:
  assumes "set_ownership e user home s = (None, s')"
  shows "\<forall>q. q \<noteq> keys_file home \<and> q \<noteq> ssh_dir home \<longrightarrow> files s' q = files s q"
    and "files s (keys_file home) = Some (File c m u g) \<Longrightarrow>
           \<exists>u' g'. files s' (keys_file home) = Some (File c m u' g')"
    and "files s (ssh_dir home) = Some (Dir m u g) \<Longrightarrow>
           \<exists>u' g'. files s' (ssh_dir home) = Some (Dir m u' g')"
proof -
  from set_ownership_cases [OF assms] consider (skip) "s' = s"
    | (own) a b f1 f2 where
        "chown e (keys_file home) a b (files s) = Inr f1"
        "chown e (ssh_dir home) a b f1 = Inr f2" "s' = s\<lparr>files := f2\<rparr>"
    by blast
  note cases = this
  show "\<forall>q. q \<noteq> keys_file home \<and> q \<noteq> ssh_dir home \<longrightarrow> files s' q = files s q"
    using cases
  proof cases
    case own
    from chown_Inr [OF own(1)] chown_Inr [OF own(2)] own(3) show ?thesis by simp
  qed simp
  show "\<exists>u' g'. files s' (keys_file home) = Some (File c m u' g')"
    if "files s (keys_file home) = Some (File c m u g)"
    using cases
  proof cases
    case own
    from chown_Inr [OF own(1)] chown_Inr [OF own(2)] own(3) that paths_distinct [of home]
    show ?thesis by auto
  qed (use that in simp)
  show "\<exists>u' g'. files s' (ssh_dir home) = Some (Dir m u' g')"
    if "files s (ssh_dir home) = Some (Dir m u g)"
    using cases
  proof cases
    case own
    from chown_Inr [OF own(1)] chown_Inr [OF own(2)] own(3) that paths_distinct [of home]
    show ?thesis by auto
  qed (use that in simp)
qed

text \<open>A run of \<open>write_keys\<close> that raises nothing, step by step.\<close>

lemma write_keys_steps:
  assumes "write_keys e user home keys_content s = (None, s')"
  obtains f1 s2 f3 f4 f5 f6 s7 where
    "makedirs e (ssh_dir home) 448 (files s) = Inr f1"
    "backup_keys e home (s\<lparr>files := f1\<rparr>) = (None, s2)"
    "open_w e (keys_file home) (files s2) = Inr f3"
    "write_text e (keys_file home) keys_content f3 = Inr f4"
    "chmod e (keys_file home) 384 f4 = Inr f5"
    "chmod e (ssh_dir home) 448 f5 = Inr f6"
    "set_ownership e user home (s2\<lparr>files := f6\<rparr>) = (None, s7)"
    "files s' = files s7"
proof -
  from assms obtain s1 s2 s3 s4 s5 s6 s7 where
    a: "on_files (makedirs e (ssh_dir home) 448) s = (None, s1)"
    and b: "backup_keys e home s1 = (None, s2)"
    and c: "on_files (open_w e (keys_file home)) s2 = (None, s3)"
    and d: "on_files (write_text e (keys_file home) keys_content) s3 = (None, s4)"
    and f: "on_files (chmod e (keys_file home) 384) s4 = (None, s5)"
    and g: "on_files (chmod e (ssh_dir home) 448) s5 = (None, s6)"
    and h: "set_ownership e user home s6 = (None, s7)"
    and i: "log_info (''Updated authorized_keys for user '' @ quoted user
                          @ '' ('' @ keys_file home @ '')'') s7 = (None, s')"
    unfolding write_keys_def then_do_None by blast
  from a obtain f1 where 1: "makedirs e (ssh_dir home) 448 (files s) = Inr f1"
    and s1: "s1 = s\<lparr>files := f1\<rparr>" unfolding on_files_None by blast
  from c obtain f3 where 3: "open_w e (keys_file home) (files s2) = Inr f3"
    and s3: "s3 = s2\<lparr>files := f3\<rparr>" unfolding on_files_None by blast
  from d s3 obtain f4 where 4: "write_text e (keys_file home) keys_content f3 = Inr f4"
    and s4: "s4 = s2\<lparr>files := f4\<rparr>" unfolding on_files_None by auto
  from f s4 obtain f5 where 5: "chmod e (keys_file home) 384 f4 = Inr f5"
    and s5: "s5 = s2\<lparr>files := f5\<rparr>" unfolding on_files_None by auto
  from g s5 obtain f6 where 6: "chmod e (ssh_dir home) 448 f5 = Inr f6"
    and s6: "s6 = s2\<lparr>files := f6\<rparr>" unfolding on_files_None by auto
  from i have 8: "files s' = files s7" by (simp add: log_info_None)
  from that [OF 1 b [unfolded s1] 3 4 5 6 h [unfolded s6] 8] show thesis .
qed

lemma write_keys_success:
  assumes "write_keys e user home keys_content s = (None, s')"
  shows "\<exists>u g. files s' (keys_file home) = Some (File keys_content 384 u g)"
    and "\<exists>u g. files s' (ssh_dir home) = Some (Dir 448 u g)"
    and "files s (keys_file home) = None \<Longrightarrow>
           files s' (backup_file home) = files s (backup_file home)"
    and "files s (keys_file home) = Some (File x m u g) \<Longrightarrow>
           \<not> isdir (files s) (backup_file home) \<Longrightarrow>
           \<exists>u' g'. files s' (backup_file home) = Some (File x m u' g')"
proof -
  from assms obtain f1 s2 f3 f4 f5 f6 s7 where
    1: "makedirs e (ssh_dir home) 448 (files s) = Inr f1"
    and 2: "backup_keys e home (s\<lparr>files := f1\<rparr>) = (None, s2)"
    and 3: "open_w e (keys_file home) (files s2) = Inr f3"
    and 4: "write_text e (keys_file home) keys_content f3 = Inr f4"
    and 5: "chmod e (keys_file home) 384 f4 = Inr f5"
    and 6: "chmod e (ssh_dir home) 448 f5 = Inr f6"
    and 7: "set_ownership e user home (s2\<lparr>files := f6\<rparr>) = (None, s7)"
    and 8: "files s' = files s7"
    by (rule write_keys_steps)
  note d = paths_distinct [of home]
  note m1 = makedirs_Inr [OF 1] and o3 = open_w_Inr [OF 3] and w4 = write_text_Inr [OF 4]
    and c5 = chmod_Inr [OF 5] and c6 = chmod_Inr [OF 6]
  note b2 = backup_keys_frame [OF 2]
  \<comment> \<open>the keys file\<close>
  from o3 w4 have "\<exists>m u g. f4 (keys_file home) = Some (File keys_content m u g)" by auto
  with c5 have "\<exists>u g. f5 (keys_file home) = Some (File keys_content 384 u g)" by auto
  with c6 d have "\<exists>u g. f6 (keys_file home) = Some (File keys_content 384 u g)" by auto
  then obtain u6 g6 where "files (s2\<lparr>files := f6\<rparr>) (keys_file home)
      = Some (File keys_content 384 u6 g6)" by auto
  from set_ownership_None(2) [OF 7 this] 8
  show "\<exists>u g. files s' (keys_file home) = Some (File keys_content 384 u g)" by simp
  \<comment> \<open>the directory\<close>
  from m1 b2(2) have "\<exists>m u g. files s2 (ssh_dir home) = Some (Dir m u g)" by simp
  with o3 d have "\<exists>m u g. f3 (ssh_dir home) = Some (Dir m u g)" by auto
  with w4 d have "\<exists>m u g. f4 (ssh_dir home) = Some (Dir m u g)" by auto
  with c5 d have "\<exists>m u g. f5 (ssh_dir home) = Some (Dir m u g)" by auto
  with c6 have "\<exists>u g. f6 (ssh_dir home) = Some (Dir 448 u g)" by auto
  then obtain u6' g6' where "files (s2\<lparr>files := f6\<rparr>) (ssh_dir home) = Some (Dir 448 u6' g6')"
    by auto
  from set_ownership_None(3) [OF 7 this] 8
  show "\<exists>u g. files s' (ssh_dir home) = Some (Dir 448 u g)" by simp
  \<comment> \<open>the backup\<close>
  have after: "files s' (backup_file home) = files s2 (backup_file home)"
  proof -
    have "f6 (backup_file home) = files s2 (backup_file home)"
      using o3 w4 c5 c6 d by simp
    with set_ownership_None(1) [OF 7] 8 d show ?thesis by simp
  qed
  show "files s' (backup_file home) = files s (backup_file home)"
    if "files s (keys_file home) = None"
  proof -
    from that m1 d have "files (s\<lparr>files := f1\<rparr>) (keys_file home) = None" by simp
    from backup_keys_absent [OF this, of e] 2 have "s2 = s\<lparr>files := f1\<rparr>" by simp
    with m1 d after show ?thesis by simp
  qed
  show "\<exists>u' g'. files s' (backup_file home) = Some (File x m u' g')"
    if "files s (keys_file home) = Some (File x m u g)"
      and "\<not> isdir (files s) (backup_file home)"
  proof -
    from that m1 d have k: "files (s\<lparr>files := f1\<rparr>) (keys_file home) = Some (File x m u g)"
      and n: "\<not> isdir (files (s\<lparr>files := f1\<rparr>)) (backup_file home)"
      by (simp_all add: isdir_def)
    from backup_keys_copies [OF 2 k n] after show ?thesis by simp
  qed
qed

lemma update_authorized_keys_True:
  assumes "update_authorized_keys e user keys_content s = (True, s')"
  obtains home where "home_dir e user (files s) = Inr home"
    and "write_keys e user home keys_content s = (None, s')"
  using assms
  by (auto simp: update_authorized_keys_def split: sum.splits prod.splits option.splits if_splits)

text \<open>The example runs that the witnesses evaluate.\<close>

lemma pair_fstI: "fst p = a \<Longrightarrow> p = (a, snd p)"
  by (cases p) simp

lemma root_update_succeeds:
  "update_authorized_keys example_env ''root'' key_payload root_state
     = (True, snd (update_authorized_keys example_env ''root'' key_payload root_state))"
proof -
  have "fst (update_authorized_keys example_env ''root'' key_payload root_state) = True"
    by code_simp
  then show ?thesis by (rule pair_fstI)
qed

lemma root_home: "home_dir example_env ''root'' (files root_state) = Inr ''/root''"
  by (simp add: home_dir_def)

lemma deploy_update_succeeds:
  "update_authorized_keys example_env ''deploy'' key_payload stale_state
     = (True, snd (update_authorized_keys example_env ''deploy'' key_payload stale_state))"
proof -
  have "fst (update_authorized_keys example_env ''deploy'' key_payload stale_state) = True"
    by code_simp
  then show ?thesis by (rule pair_fstI)
qed

lemma deploy_home: "home_dir example_env ''deploy'' (files stale_state) = Inr ''/home/deploy''"
  by (simp add: home_dir_def getpwnam_def example_env_def)

lemma root_paths:
  "ssh_dir ''/root'' = ''/root/.ssh''"
  "keys_file ''/root'' = ''/root/.ssh/authorized_keys''"
  "backup_file ''/root'' = ''/root/.ssh/authorized_keys.backup''"
  by (simp_all add: ssh_dir_def keys_file_def backup_file_def path_join_def)

lemma deploy_paths:
  "ssh_dir ''/home/deploy'' = ''/home/deploy/.ssh''"
  "keys_file ''/home/deploy'' = ''/home/deploy/.ssh/authorized_keys''"
  "backup_file ''/home/deploy'' = ''/home/deploy/.ssh/authorized_keys.backup''"
  by (simp_all add: ssh_dir_def keys_file_def backup_file_def path_join_def)

text \<open>
  C2: when the reconciliation of an account succeeds, reading its \<^verbatim>\<open>authorized_keys\<close>
  back gives exactly the payload, whatever the file held before.
\<close>

theorem keys_file_is_payload:
  assumes "update_authorized_keys e user payload s = (True, s')"
    and "home_dir e user (files s) = Inr home"
  shows "read_file (files s') (keys_file home) = Some payload"
proof -
  from assms obtain "write_keys e user home payload s = (None, s')"
    by (auto elim: update_authorized_keys_True)
  from write_keys_success(1) [OF this] show ?thesis by (auto simp: read_file_def)
qed

theorem keys_file_is_payload_witness:
  "update_authorized_keys example_env ''root'' key_payload root_state
     = (True, snd (update_authorized_keys example_env ''root'' key_payload root_state))
   \<and> home_dir example_env ''root'' (files root_state) = Inr ''/root''
   \<and> read_file (files root_state) ''/root/.ssh/authorized_keys'' = Some ''ssh-rsa OLD old@host''
   \<and> read_file (files (snd (update_authorized_keys example_env ''root'' key_payload root_state)))
        ''/root/.ssh/authorized_keys'' = Some (''ssh-ed25519 AAAA user@host'' @ [NL])"
  using keys_file_is_payload [OF root_update_succeeds root_home] root_update_succeeds root_home
  by (simp add: root_paths key_payload_def read_file_def root_state_def)



text \<open>
  C4: after a successful reconciliation \<^verbatim>\<open>.ssh\<close> is a directory of mode 0700 (448)
  and \<^verbatim>\<open>authorized_keys\<close> has mode 0600 (384), whatever the modes were before.
\<close>

theorem owner_only_modes:
  assumes "update_authorized_keys e user payload s = (True, s')"
    and "home_dir e user (files s) = Inr home"
  shows "isdir (files s') (ssh_dir home)
       \<and> mode_of (files s') (ssh_dir home) = Some 448
       \<and> mode_of (files s') (keys_file home) = Some 384"
proof -
  from assms obtain w: "write_keys e user home payload s = (None, s')"
    by (auto elim: update_authorized_keys_True)
  from write_keys_success(1,2) [OF w] show ?thesis by (auto simp: mode_of_def isdir_def)
qed

theorem owner_only_modes_witness:
  "update_authorized_keys example_env ''root'' key_payload root_state
     = (True, snd (update_authorized_keys example_env ''root'' key_payload root_state))
   \<and> home_dir example_env ''root'' (files root_state) = Inr ''/root''
   \<and> mode_of (files root_state) ''/root/.ssh'' = Some 493
   \<and> mode_of (files root_state) ''/root/.ssh/authorized_keys'' = Some 420
   \<and> mode_of (files (snd (update_authorized_keys example_env ''root'' key_payload root_state)))
        ''/root/.ssh'' = Some 448
   \<and> mode_of (files (snd (update_authorized_keys example_env ''root'' key_payload root_state)))
        ''/root/.ssh/authorized_keys'' = Some 384"
  using owner_only_modes [OF root_update_succeeds root_home] root_update_succeeds root_home
  by (simp add: root_paths mode_of_def root_state_def)

text \<open>
  C10: when there is no \<^verbatim>\<open>authorized_keys\<close> before a successful reconciliation, the
  node at \<^verbatim>\<open>authorized_keys.backup\<close> is afterwards what it was: not created when absent,
  not modified when a stale backup is there.
\<close>

theorem backup_untouched_without_keys_file:
  assumes "update_authorized_keys e user payload s = (True, s')"
    and "home_dir e user (files s) = Inr home"
    and "\<not> exists (files s) (keys_file home)"
  shows "files s' (backup_file home) = files s (backup_file home)"
proof -
  from assms(1,2) obtain w: "write_keys e user home payload s = (None, s')"
    by (auto elim: update_authorized_keys_True)
  from assms(3) have "files s (keys_file home) = None" by (simp add: exists_def)
  from write_keys_success(3) [OF w this] show ?thesis .
qed

theorem backup_untouched_witness:
  "update_authorized_keys example_env ''deploy'' key_payload stale_state
     = (True, snd (update_authorized_keys example_env ''deploy'' key_payload stale_state))
   \<and> home_dir example_env ''deploy'' (files stale_state) = Inr ''/home/deploy''
   \<and> \<not> exists (files stale_state) ''/home/deploy/.ssh/authorized_keys''
   \<and> files (snd (update_authorized_keys example_env ''deploy'' key_payload stale_state))
        ''/home/deploy/.ssh/authorized_keys.backup''
      = Some (File ''ssh-rsa STALE s@host'' 384 1000 1000)"
proof -
  have k: "\<not> exists (files stale_state) (keys_file ''/home/deploy'')"
    by (simp add: deploy_paths exists_def stale_state_def)
  show ?thesis
    using backup_untouched_without_keys_file [OF deploy_update_succeeds deploy_home k]
      deploy_update_succeeds deploy_home k
    by (simp add: deploy_paths stale_state_def)
qed

text \<open>
  C7: the reconciler resolves the home directory so: \<^verbatim>\<open>root\<close> is \<^verbatim>\<open>/root\<close>; any
  other account is looked up in the user database and gets its entry's directory; an
  account the database does not know makes the reconciliation fail with the error
  "User ... not found" (the script's UnknownAccount), nothing else done; without the
  database the home is \<^verbatim>\<open>/home/{account}\<close> when that path exists, and when it does
  not the reconciliation fails with "Home directory for user ... not found" (its
  HomeMissing). The home resolved is the one the rest of the reconciliation works on.
\<close>

theorem home_directory_resolution:
  "home_dir e ''root'' (files s) = Inr ''/root''
   \<and> (user \<noteq> ''root'' \<and> pwd_db e = Some db \<and> db user = Some pw \<longrightarrow>
        home_dir e user (files s) = Inr (pw_dir pw))
   \<and> (user \<noteq> ''root'' \<and> pwd_db e = Some db \<and> db user = None \<longrightarrow>
        update_authorized_keys e user keys_content s
          = (False, logger_error (''User '' @ quoted user @ '' not found'') s))
   \<and> (user \<noteq> ''root'' \<and> pwd_db e = None \<and> exists (files s) (''/home/'' @ user) \<longrightarrow>
        home_dir e user (files s) = Inr (''/home/'' @ user))
   \<and> (user \<noteq> ''root'' \<and> pwd_db e = None \<and> \<not> exists (files s) (''/home/'' @ user) \<longrightarrow>
        update_authorized_keys e user keys_content s
          = (False, logger_error (''Home directory for user '' @ quoted user @ '' not found'') s))
   \<and> (home_dir e user (files s) = Inr home \<longrightarrow>
        fst (update_authorized_keys e user keys_content s)
          = (fst (write_keys e user home keys_content s) = None))"
  by (simp add: home_dir_def update_authorized_keys_def getpwnam_def Let_def
      split: prod.splits option.splits)

theorem home_directory_resolution_witness:
  "home_dir example_env ''deploy'' (files empty_state) = Inr ''/home/deploy''
   \<and> update_authorized_keys example_env ''ghost'' key_payload empty_state
        = (False, logger_error (''User '' @ quoted ''ghost'' @ '' not found'') empty_state)
   \<and> home_dir no_pwd_env ''deploy'' (files stale_state) = Inr ''/home/deploy''
   \<and> update_authorized_keys no_pwd_env ''deploy'' key_payload empty_state
        = (False,
           logger_error (''Home directory for user '' @ quoted ''deploy'' @ '' not found'')
             empty_state)
   \<and> fst (update_authorized_keys example_env ''root'' key_payload root_state)
        = (fst (write_keys example_env ''root'' ''/root'' key_payload root_state) = None)"
  using
    home_directory_resolution [where e = example_env and s = empty_state and user = "''deploy''"
      and db = "[''deploy'' \<mapsto> \<lparr>pw_dir = ''/home/deploy'', pw_uid = 1000, pw_gid = 1000\<rparr>]"
      and pw = "\<lparr>pw_dir = ''/home/deploy'', pw_uid = 1000, pw_gid = 1000\<rparr>"]
    home_directory_resolution [where e = example_env and s = empty_state and user = "''ghost''"
      and db = "[''deploy'' \<mapsto> \<lparr>pw_dir = ''/home/deploy'', pw_uid = 1000, pw_gid = 1000\<rparr>]"
      and keys_content = key_payload]
    home_directory_resolution [where e = no_pwd_env and s = stale_state and user = "''deploy''"]
    home_directory_resolution [where e = no_pwd_env and s = empty_state and user = "''deploy''"
      and keys_content = key_payload]
    home_directory_resolution [where e = example_env and s = root_state and user = "''root''"
      and keys_content = key_payload and home = "''/root''"]
  by (simp add: example_env_def no_pwd_env_def empty_state_def stale_state_def exists_def)

subsection \<open>The orchestrator: the loop over the accounts\<close>

lemma update_users_append:
  "update_users e (xs @ ys) c n s =
     (case update_users e xs c n s of (n1, s1) \<Rightarrow> update_users e ys c n1 s1)"
  by (induction xs arbitrary: n s) (auto split: prod.splits)

text \<open>
  C6: whatever happened to the accounts before it, every account of the list gets its
  call of the reconciler, on the state the earlier calls left, and the calls after it
  follow, whether it succeeded or not. For the list of a valid and an unknown account,
  the valid one is reconciled, the unknown one is reported as not found, the loop counts
  one success, and the run returns after logging the tally 1/2.
\<close>

theorem failure_does_not_block_other_accounts:
  "update_users e (earlier @ user # later) keys_content n s =
     (case update_users e earlier keys_content n s of
        (n1, s1) \<Rightarrow>
          (case update_authorized_keys e user keys_content s1 of
             (ok, s2) \<Rightarrow> update_users e later keys_content (if ok then n1 + 1 else n1) s2))
   \<and> (update_authorized_keys e valid keys_content s = (True, s')
        \<and> ghost \<noteq> ''root'' \<and> pwd_db e = Some db \<and> db ghost = None \<longrightarrow>
        update_users e [valid, ghost] keys_content 0 s
          = (1, logger_error (''User '' @ quoted ghost @ '' not found'') s'))
   \<and> (\<not> arg_uninstall a \<and> \<not> arg_install a \<and> users_of a = [valid, ghost]
        \<and> fetch_authorized_keys e (arg_server a) (arg_key a) (arg_group a) s0
             = (Some keys_content, s)
        \<and> update_authorized_keys e valid keys_content s = (True, s')
        \<and> ghost \<noteq> ''root'' \<and> pwd_db e = Some db \<and> db ghost = None \<longrightarrow>
        main e a s0
          = (Returned,
             logger_info ''Successfully updated keys for 1/2 user(s)''
               (logger_error (''User '' @ quoted ghost @ '' not found'') s')))"
proof (intro conjI impI)
  show "update_users e (earlier @ user # later) keys_content n s =
     (case update_users e earlier keys_content n s of
        (n1, s1) \<Rightarrow>
          (case update_authorized_keys e user keys_content s1 of
             (ok, s2) \<Rightarrow> update_users e later keys_content (if ok then n1 + 1 else n1) s2))"
    by (simp add: update_users_append split: prod.splits)
next
  assume h: "update_authorized_keys e valid keys_content s = (True, s')
        \<and> ghost \<noteq> ''root'' \<and> pwd_db e = Some db \<and> db ghost = None"
  then have "update_authorized_keys e ghost keys_content s'
      = (False, logger_error (''User '' @ quoted ghost @ '' not found'') s')"
    by (simp add: home_dir_def update_authorized_keys_def getpwnam_def)
  with h show "update_users e [valid, ghost] keys_content 0 s
          = (1, logger_error (''User '' @ quoted ghost @ '' not found'') s')"
    by simp
next
  assume h: "\<not> arg_uninstall a \<and> \<not> arg_install a \<and> users_of a = [valid, ghost]
        \<and> fetch_authorized_keys e (arg_server a) (arg_key a) (arg_group a) s0
             = (Some keys_content, s)
        \<and> update_authorized_keys e valid keys_content s = (True, s')
        \<and> ghost \<noteq> ''root'' \<and> pwd_db e = Some db \<and> db ghost = None"
  then have "update_authorized_keys e ghost keys_content s'
      = (False, logger_error (''User '' @ quoted ghost @ '' not found'') s')"
    by (simp add: home_dir_def update_authorized_keys_def getpwnam_def)
  with h have "update_users e [valid, ghost] keys_content 0 s
          = (1, logger_error (''User '' @ quoted ghost @ '' not found'') s')"
    by simp
  with h show "main e a s0
          = (Returned,
             logger_info ''Successfully updated keys for 1/2 user(s)''
               (logger_error (''User '' @ quoted ghost @ '' not found'') s'))"
    by (simp add: main_def Let_def)
qed

theorem failure_does_not_block_witness:
  "users_of two_users_args = [''deploy'', ''ghost'']
   \<and> fst (update_authorized_keys example_env ''deploy'' key_payload
         (snd (fetch_authorized_keys example_env ''http://server:3000'' ''adminkey''
                 ''Developers'' stale_state))) = True
   \<and> main example_env two_users_args stale_state
       = (Returned,
          logger_info ''Successfully updated keys for 1/2 user(s)''
            (logger_error (''User '' @ quoted ''ghost'' @ '' not found'')
               (snd (update_authorized_keys example_env ''deploy'' key_payload
                  (snd (fetch_authorized_keys example_env ''http://server:3000'' ''adminkey''
                          ''Developers'' stale_state))))))"
proof -
  let ?s = "snd (fetch_authorized_keys example_env ''http://server:3000'' ''adminkey''
                   ''Developers'' stale_state)"
  let ?db = "[''deploy'' \<mapsto> \<lparr>pw_dir = ''/home/deploy'', pw_uid = 1000, pw_gid = 1000\<rparr>]"
  have u: "users_of two_users_args = [''deploy'', ''ghost'']"
    by code_simp
  have "fst (fetch_authorized_keys example_env ''http://server:3000'' ''adminkey''
               ''Developers'' stale_state) = Some key_payload"
    by code_simp
  then have "fetch_authorized_keys example_env ''http://server:3000'' ''adminkey''
               ''Developers'' stale_state = (Some key_payload, ?s)"
    by (rule pair_fstI)
  then have f: "fetch_authorized_keys example_env (arg_server two_users_args)
      (arg_key two_users_args) (arg_group two_users_args) stale_state = (Some key_payload, ?s)"
    by (simp only: two_users_args_def args.simps)
  have t: "fst (update_authorized_keys example_env ''deploy'' key_payload ?s) = True"
    by code_simp
  then have d: "update_authorized_keys example_env ''deploy'' key_payload ?s
      = (True, snd (update_authorized_keys example_env ''deploy'' key_payload ?s))"
    by (rule pair_fstI)
  have g: "''ghost'' \<noteq> ''root''" by simp
  have p: "pwd_db example_env = Some ?db"
    by (simp add: example_env_def)
  have n: "?db ''ghost'' = None" by simp
  have a: "\<not> arg_uninstall two_users_args" "\<not> arg_install two_users_args"
    by (simp_all add: two_users_args_def)
  note r = failure_does_not_block_other_accounts
    [where e = example_env and a = two_users_args and ?s0.0 = stale_state and s = ?s
      and valid = "''deploy''" and ghost = "''ghost''" and keys_content = key_payload
      and s' = "snd (update_authorized_keys example_env ''deploy'' key_payload ?s)"
      and db = ?db, THEN conjunct2, THEN conjunct2, THEN mp]
  have "main example_env two_users_args stale_state
       = (Returned,
          logger_info ''Successfully updated keys for 1/2 user(s)''
            (logger_error (''User '' @ quoted ''ghost'' @ '' not found'')
               (snd (update_authorized_keys example_env ''deploy'' key_payload ?s))))"
    by (rule r) (intro conjI a u f d g p n)
  with u t show ?thesis by (intro conjI)
qed

subsection \<open>Strings: containment, lines and joining\<close>




lemma str_split_not_Nil [simp]: "str_split c s \<noteq> []"
  by (cases s) (simp_all add: Let_def)











subsection \<open>Strings: stripping and newline translation\<close>


lemma strip_ends:
  assumes "strip s \<noteq> []"
  shows "\<not> isspace (hd (strip s))" and "\<not> isspace (last (strip s))"
proof -
  let ?t = "dropWhile isspace s"
  let ?r = "dropWhile isspace (rev ?t)"
  from assms have r: "?r \<noteq> []" by (simp add: strip_def)
  then have "\<not> isspace (hd ?r)" by (rule hd_dropWhile)
  with r show "\<not> isspace (last (strip s))" by (simp add: strip_def last_rev)
  have t: "?t \<noteq> []"
  proof
    assume "?t = []"
    then have "?r = []" by (simp only: rev.simps dropWhile.simps)
    with r show False by simp
  qed
  then have h: "\<not> isspace (hd ?t)" by (rule hd_dropWhile)
  have "?t = strip s @ rev (takeWhile isspace (rev ?t))"
    by (metis strip_def rev_append rev_rev_ident takeWhile_dropWhile_id)
  with assms have "hd ?t = hd (strip s)" by (metis hd_append2)
  with h show "\<not> isspace (hd (strip s))" by simp
qed

lemma strip_fixed:
  assumes "t \<noteq> []" "\<not> isspace (hd t)" "\<not> isspace (last t)"
  shows "strip (t @ [NL]) = t" and "strip t = t"
proof -
  from assms(1,2) have d: "dropWhile isspace (t @ [NL]) = t @ [NL]" "dropWhile isspace t = t"
    by (cases t; simp)+
  from assms(1,3) have "dropWhile isspace (rev t) = rev t"
    by (cases "rev t") (auto simp: last_rev [symmetric] hd_rev)
  with d show "strip (t @ [NL]) = t" and "strip t = t"
    by (simp_all add: strip_def isspace_def)
qed

lemma strip_strip: "strip (strip s) = strip s"
proof (cases "strip s = []")
  case True
  have "strip [] = []" by (simp add: strip_def)
  with True show ?thesis by simp
next
  case False
  from strip_fixed(2) [OF False strip_ends [OF False]] show ?thesis .
qed






subsection \<open>The scheduler registrar\<close>






























end
